theory Spec2Isabelle
  imports Complex_Main "HOL-Library.Word" "HOL-Library.Sublist" "HOL-Library.Multiset"
begin

section \<open>JavaScript strings\<close>

text \<open>
  A JavaScript string is a sequence of UTF-16 code units; \<open>charCodeAt\<close>, \<open>includes\<close>,
  \<open>trim\<close> and the regular expressions of the source all work on code units.
  \<open>js\<close> embeds an ASCII literal of the source.
\<close>

type_synonym jsstring = "16 word list"

definition js :: "string \<Rightarrow> jsstring" where
  "js s = map of_char s"

text \<open>\<open>s.includes(pat)\<close>: some suffix of \<open>s\<close> starts with \<open>pat\<close>.\<close>

fun str_includes :: "jsstring \<Rightarrow> jsstring \<Rightarrow> bool" where
  "str_includes [] pat = (pat = [])"
| "str_includes (c # cs) pat = (prefix pat (c # cs) \<or> str_includes cs pat)"

text \<open>
  The code units matched by \<open>\s\<close> in a regular expression and removed by \<open>trim()\<close>
  (ECMAScript WhiteSpace and LineTerminator): TAB, LF, VT, FF, CR, SPACE, NBSP, U+1680,
  U+2000 to U+200A, U+2028, U+2029, U+202F, U+205F, U+3000 and U+FEFF.
\<close>

definition is_whitespace :: "16 word \<Rightarrow> bool" where
  "is_whitespace c \<longleftrightarrow>
     (9 \<le> c \<and> c \<le> 13) \<or> c = 32 \<or> c = 160 \<or> c = 5760 \<or>
     (8192 \<le> c \<and> c \<le> 8202) \<or> c = 8232 \<or> c = 8233 \<or> c = 8239 \<or>
     c = 8287 \<or> c = 12288 \<or> c = 65279"

definition trim :: "jsstring \<Rightarrow> jsstring" where
  "trim s = rev (dropWhile is_whitespace (rev (dropWhile is_whitespace s)))"

text \<open>
  \<open>s.replace(/lit\s*/g, '')\<close> for a non-empty literal \<open>lit\<close>: scanning from the left,
  every occurrence of \<open>lit\<close> is removed together with all the whitespace that follows
  it, and the scan resumes after the removed text.
\<close>

function remove_with_spaces :: "jsstring \<Rightarrow> jsstring \<Rightarrow> jsstring" where
  "remove_with_spaces lit [] = []"
| "remove_with_spaces lit (c # cs) =
     (if lit \<noteq> [] \<and> prefix lit (c # cs)
      then remove_with_spaces lit (dropWhile is_whitespace (drop (length lit) (c # cs)))
      else c # remove_with_spaces lit cs)"
  by pat_completeness auto
termination
proof (relation "measure (\<lambda>(lit, s). length s)")
  show "wf (measure (\<lambda>(lit, s). length s))" by simp
next
  fix lit :: jsstring and c :: "16 word" and cs :: jsstring
  assume "lit \<noteq> [] \<and> prefix lit (c # cs)"
  then have "0 < length lit" by simp
  then have "length (drop (length lit) (c # cs)) < length (c # cs)" by simp
  moreover have "length (dropWhile is_whitespace (drop (length lit) (c # cs)))
      \<le> length (drop (length lit) (c # cs))"
    by (rule length_dropWhile_le)
  ultimately show "((lit, dropWhile is_whitespace (drop (length lit) (c # cs))), (lit, c # cs))
      \<in> measure (\<lambda>(lit, s). length s)"
    by simp
next
  fix lit :: jsstring and c :: "16 word" and cs :: jsstring
  show "((lit, cs), (lit, c # cs)) \<in> measure (\<lambda>(lit, s). length s)" by simp
qed

text \<open>\<open>n.toString()\<close> for an integer \<open>n\<close>: decimal digits, with a minus sign.\<close>

function digits :: "nat \<Rightarrow> jsstring" where
  "digits n = (if n < 10 then [48 + of_nat n] else digits (n div 10) @ [48 + of_nat (n mod 10)])"
  by pat_completeness auto
termination
  by (relation "measure (\<lambda>n. n)") auto

declare digits.simps [simp del]

definition int_toString :: "int \<Rightarrow> jsstring" where
  "int_toString i = (if i < 0 then 45 # digits (nat (- i)) else digits (nat i))"

section \<open>JSON values\<close>

text \<open>
  A JavaScript number is a binary64 value: a real number, an infinity or NaN.
  \<open>JSON.parse\<close> yields \<open>null\<close>, booleans, numbers, strings, arrays and plain objects
  with distinct keys, in the order of the text. A property that an object does not have
  reads as \<open>undefined\<close>, here \<open>None\<close>.
\<close>

datatype jsnumber = Finite real | PosInfinity | NegInfinity | NaN

datatype json =
    JNull
  | JBool bool
  | JNumber jsnumber
  | JString jsstring
  | JArray "json list"
  | JObject "(jsstring \<times> json) list"

text \<open>\<open>v[key]\<close> for one of the keys of the schemas, on a value that is not \<open>null\<close>:
  only a plain object has such a property.\<close>

fun get_prop :: "json \<Rightarrow> jsstring \<Rightarrow> json option" where
  "get_prop (JObject kvs) key = map_of kvs key"
| "get_prop _ key = None"

text \<open>\<open>obj[key] = v\<close>: an existing key keeps its position, a new key goes last.\<close>

fun set_entry :: "jsstring \<Rightarrow> json \<Rightarrow> (jsstring \<times> json) list \<Rightarrow> (jsstring \<times> json) list" where
  "set_entry key v [] = [(key, v)]"
| "set_entry key v ((k, w) # kvs) =
     (if k = key then (k, v) # kvs else (k, w) # set_entry key v kvs)"

text \<open>JavaScript truthiness of a value that may be \<open>undefined\<close>.\<close>

fun truthy :: "json option \<Rightarrow> bool" where
  "truthy None = False"
| "truthy (Some JNull) = False"
| "truthy (Some (JBool b)) = b"
| "truthy (Some (JNumber n)) = (n \<noteq> Finite 0 \<and> n \<noteq> NaN)"
| "truthy (Some (JString s)) = (s \<noteq> [])"
| "truthy (Some (JArray xs)) = True"
| "truthy (Some (JObject kvs)) = True"

section \<open>Zod issues and thrown values\<close>

datatype path_elem = Key jsstring | Index nat

datatype zod_type =
  ZUndefined | ZNull | ZBoolean | ZNan | ZNumber | ZString | ZArray | ZObject

datatype zod_issue =
    InvalidType jsstring zod_type "path_elem list"
  | InvalidEnumValue "path_elem list"

text \<open>
  What a \<open>catch\<close> clause can receive: an \<open>Error\<close> object with its \<open>name\<close> and
  \<open>message\<close>, which is an instance of \<open>z.ZodError\<close> exactly when it carries issues,
  or a value other than \<open>null\<close> and \<open>undefined\<close> that is not an \<open>Error\<close> and
  has no \<open>message\<close> property.
\<close>

record js_error =
  zod_issues :: "zod_issue list option"
  error_name :: jsstring
  message :: jsstring

datatype thrown = Thrown js_error | ThrownNonError

definition new_Error :: "jsstring \<Rightarrow> js_error" where
  "new_Error msg = \<lparr>zod_issues = None, error_name = js ''Error'', message = msg\<rparr>"

text \<open>
  The parts of the JavaScript runtime and of the Zod library that the code calls and
  whose results are text: \<open>JSON.parse\<close> (the message of its \<open>SyntaxError\<close> on the
  left), \<open>JSON.stringify\<close>, and the message Zod gives a \<open>ZodError\<close>.
\<close>

record runtime =
  JSON_parse :: "jsstring \<Rightarrow> jsstring + json"
  JSON_stringify :: "json \<Rightarrow> jsstring"
  zod_message :: "zod_issue list \<Rightarrow> jsstring"

definition new_SyntaxError :: "jsstring \<Rightarrow> js_error" where
  "new_SyntaxError msg = \<lparr>zod_issues = None, error_name = js ''SyntaxError'', message = msg\<rparr>"

definition new_ZodError :: "'a runtime_scheme \<Rightarrow> zod_issue list \<Rightarrow> js_error" where
  "new_ZodError rt issues =
     \<lparr>zod_issues = Some issues, error_name = js ''ZodError'', message = zod_message rt issues\<rparr>"

section \<open>QuotaHelper (utils/quotaHelper.ts)\<close>

record QuotaInfo =
  isQuotaExceeded :: bool
  retryAfter :: "jsstring option"
  suggestions :: "jsstring list"
  upgradeUrl :: "jsstring option"

definition getQuotaInfo :: "js_error \<Rightarrow> QuotaInfo" where
  "getQuotaInfo error =
     (if str_includes (message error) (js ''429 Too Many Requests'') then
        \<lparr>isQuotaExceeded = True,
         retryAfter = Some (js ''24 hours''),
         suggestions =
           [js ''Wait until tomorrow for the free tier quota to reset (50 requests/day)'',
            js ''Upgrade to a paid Gemini API plan for higher limits'',
            js ''Implement request caching to reduce API calls'',
            js ''Consider using multiple API keys for different environments''],
         upgradeUrl = Some (js ''https://ai.google.dev/pricing'')\<rparr>
      else if str_includes (message error) (js ''API key'') then
        \<lparr>isQuotaExceeded = False,
         retryAfter = None,
         suggestions =
           [js ''Check your GEMINI_API_KEY environment variable'',
            js ''Verify the API key is valid and active'',
            js ''Ensure the API key has the necessary permissions''],
         upgradeUrl = None\<rparr>
      else
        \<lparr>isQuotaExceeded = False,
         retryAfter = None,
         suggestions =
           [js ''Check your internet connection'',
            js ''Verify the Gemini API service is available'',
            js ''Try again in a few minutes''],
         upgradeUrl = None\<rparr>)"

definition shouldUseFallback :: "js_error \<Rightarrow> bool" where
  "shouldUseFallback error \<longleftrightarrow>
     str_includes (message error) (js ''429 Too Many Requests'') \<or>
     str_includes (message error) (js ''quota'') \<or>
     str_includes (message error) (js ''limit'')"

subsection \<open>The usage estimate\<close>

text \<open>
  \<open>Math.floor(Math.random() * freeTierLimit)\<close> is double arithmetic. \<open>Math.random()\<close>
  yields a binary64 value \<open>r\<close> with \<open>0 \<le> r < 1\<close>; the product is the exact product
  rounded to a nearest binary64 value. The rounding is the parameter \<open>rnd\<close>: on
  the finite range, no binary64 value is nearer to \<open>x\<close> than \<open>rnd x\<close>. The
  subtraction \<open>freeTierLimit - estimatedUsed\<close> is exact, both operands being small
  integers.
\<close>

definition is_binary64 :: "real \<Rightarrow> bool" where
  "is_binary64 y \<longleftrightarrow>
     (\<exists>(m::int) (a::nat) (b::nat).
        \<bar>m\<bar> < 2 ^ 53 \<and> a \<le> 971 \<and> b \<le> 1074 \<and> y = of_int m * 2 ^ a / 2 ^ b)"

definition round_to_nearest :: "(real \<Rightarrow> real) \<Rightarrow> bool" where
  "round_to_nearest rnd \<longleftrightarrow>
     (\<forall>x y. \<bar>x\<bar> \<le> 2 ^ 1023 \<and> is_binary64 y \<longrightarrow> \<bar>rnd x - x\<bar> \<le> \<bar>y - x\<bar>)"

record QuotaUsage =
  used :: int
  limit :: int
  remaining :: int

definition getQuotaUsageEstimate :: "(real \<Rightarrow> real) \<Rightarrow> real \<Rightarrow> QuotaUsage" where
  "getQuotaUsageEstimate rnd random =
     (let freeTierLimit = 50;
          estimatedUsed = \<lfloor>rnd (random * of_int freeTierLimit)\<rfloor>
      in \<lparr>used = estimatedUsed, limit = freeTierLimit,
          remaining = freeTierLimit - estimatedUsed\<rparr>)"

section \<open>Zod schemas\<close>

text \<open>
  A schema takes the path of the value and the value (\<open>None\<close> for \<open>undefined\<close>) and
  returns the parsed output or the issues. An object schema reads each key of its shape
  from the input, drops the other keys, and reports the issues of all its keys together.
\<close>

type_synonym 'a zod_result = "zod_issue list + 'a"
type_synonym 'a zod_schema = "path_elem list \<Rightarrow> json option \<Rightarrow> 'a zod_result"

fun getParsedType :: "json option \<Rightarrow> zod_type" where
  "getParsedType None = ZUndefined"
| "getParsedType (Some JNull) = ZNull"
| "getParsedType (Some (JBool b)) = ZBoolean"
| "getParsedType (Some (JNumber n)) = (if n = NaN then ZNan else ZNumber)"
| "getParsedType (Some (JString s)) = ZString"
| "getParsedType (Some (JArray xs)) = ZArray"
| "getParsedType (Some (JObject kvs)) = ZObject"

definition zod_string :: "jsstring zod_schema" where
  "zod_string p v =
     (case v of Some (JString s) \<Rightarrow> Inr s
      | _ \<Rightarrow> Inl [InvalidType (js ''string'') (getParsedType v) p])"

definition zod_number :: "jsnumber zod_schema" where
  "zod_number p v =
     (case v of
        Some (JNumber n) \<Rightarrow>
          (if n = NaN then Inl [InvalidType (js ''number'') ZNan p] else Inr n)
      | _ \<Rightarrow> Inl [InvalidType (js ''number'') (getParsedType v) p])"

text \<open>\<open>.optional()\<close> accepts \<open>undefined\<close>; \<open>.nullable()\<close> accepts \<open>null\<close>.\<close>

definition zod_optional :: "'a zod_schema \<Rightarrow> 'a option zod_schema" where
  "zod_optional schema p v =
     (case v of None \<Rightarrow> Inr None | Some w \<Rightarrow> map_sum id Some (schema p v))"

datatype 'a nullish = Undefined | Null | Value 'a

definition zod_nullable_optional :: "'a zod_schema \<Rightarrow> 'a nullish zod_schema" where
  "zod_nullable_optional schema p v =
     (case v of None \<Rightarrow> Inr Undefined
      | Some JNull \<Rightarrow> Inr Null
      | Some w \<Rightarrow> map_sum id Value (schema p v))"

definition zod_transform :: "'a zod_schema \<Rightarrow> ('a \<Rightarrow> 'b) \<Rightarrow> 'b zod_schema" where
  "zod_transform schema f p v = map_sum id f (schema p v)"

definition zod_enum :: "jsstring list \<Rightarrow> jsstring zod_schema" where
  "zod_enum vals p v =
     (case v of
        Some (JString s) \<Rightarrow> (if s \<in> set vals then Inr s else Inl [InvalidEnumValue p])
      | _ \<Rightarrow> Inl [InvalidType (js ''enum'') (getParsedType v) p])"

definition zod_both :: "'a zod_result \<Rightarrow> 'b zod_result \<Rightarrow> ('a \<times> 'b) zod_result" where
  "zod_both a b =
     (case a of
        Inl e \<Rightarrow> (case b of Inl f \<Rightarrow> Inl (e @ f) | Inr y \<Rightarrow> Inl e)
      | Inr x \<Rightarrow> (case b of Inl f \<Rightarrow> Inl f | Inr y \<Rightarrow> Inr (x, y)))"

fun zod_all :: "'a zod_result list \<Rightarrow> 'a list zod_result" where
  "zod_all [] = Inr []"
| "zod_all (r # rs) = map_sum id (\<lambda>(x, xs). x # xs) (zod_both r (zod_all rs))"

definition zod_array :: "'a zod_schema \<Rightarrow> 'a list zod_schema" where
  "zod_array schema p v =
     (case v of
        Some (JArray xs) \<Rightarrow>
          zod_all (map (\<lambda>(i, x). schema (p @ [Index i]) (Some x)) (enumerate 0 xs))
      | _ \<Rightarrow> Inl [InvalidType (js ''array'') (getParsedType v) p])"

definition zod_object ::
  "((jsstring \<times> json) list \<Rightarrow> 'a zod_result) \<Rightarrow> path_elem list \<Rightarrow> json option \<Rightarrow> 'a zod_result"
where
  "zod_object shape p v =
     (case v of Some (JObject kvs) \<Rightarrow> shape kvs
      | _ \<Rightarrow> Inl [InvalidType (js ''object'') (getParsedType v) p])"

definition field ::
  "path_elem list \<Rightarrow> (jsstring \<times> json) list \<Rightarrow> string \<Rightarrow> 'a zod_schema \<Rightarrow> 'a zod_result"
where
  "field p kvs key schema = schema (p @ [Key (js key)]) (map_of kvs (js key))"

subsection \<open>The data of an extraction\<close>

record Vendor =
  name :: jsstring
  address :: "jsstring option"
  taxId :: "jsstring option"

record LineItem =
  description :: jsstring
  unitPrice :: jsnumber
  quantity :: jsnumber
  item_total :: jsnumber

text \<open>
  The invoice block, with the type of \<open>currency\<close> left open: a string after the
  transform of \<open>ExtractedDataSchema\<close>, an optional string in \<open>CreateInvoiceSchema\<close>.
\<close>

record 'c InvoiceData =
  number :: jsstring
  date :: jsstring
  currency :: 'c
  subtotal :: "jsnumber option"
  taxPercent :: "jsnumber option"
  invoice_total :: "jsnumber option"
  poNumber :: "jsstring option"
  poDate :: "jsstring option"
  lineItems :: "LineItem list"

record ExtractedData =
  vendor :: Vendor
  invoice :: "jsstring InvoiceData"

definition VendorSchema :: "Vendor zod_schema" where
  "VendorSchema = zod_object (\<lambda>kvs.
     map_sum id (\<lambda>(n, a, t). \<lparr>name = n, address = a, taxId = t\<rparr>)
       (zod_both (field [Key (js ''vendor'')] kvs ''name'' zod_string)
       (zod_both (field [Key (js ''vendor'')] kvs ''address'' (zod_optional zod_string))
                 (field [Key (js ''vendor'')] kvs ''taxId'' (zod_optional zod_string)))))"

definition LineItemSchema :: "LineItem zod_schema" where
  "LineItemSchema p = zod_object (\<lambda>kvs.
     map_sum id
       (\<lambda>(d, u, q, t). \<lparr>description = d, unitPrice = u, quantity = q, item_total = t\<rparr>)
       (zod_both (field p kvs ''description'' zod_string)
       (zod_both (field p kvs ''unitPrice'' zod_number)
       (zod_both (field p kvs ''quantity'' zod_number)
                 (field p kvs ''total'' zod_number))))) p"

text \<open>\<open>val || 'INR'\<close>: \<open>undefined\<close>, \<open>null\<close> and the empty string are falsy.\<close>

definition currency_or_INR :: "jsstring nullish \<Rightarrow> jsstring" where
  "currency_or_INR val =
     (case val of Value s \<Rightarrow> (if s \<noteq> [] then s else js ''INR'') | _ \<Rightarrow> js ''INR'')"

definition InvoiceSchema :: "'c zod_schema \<Rightarrow> 'c InvoiceData zod_schema" where
  "InvoiceSchema currency_schema = zod_object (\<lambda>kvs.
     map_sum id
       (\<lambda>(n, d, c, s, tp, t, pn, pd, li).
          \<lparr>number = n, date = d, currency = c, subtotal = s, taxPercent = tp,
           invoice_total = t, poNumber = pn, poDate = pd, lineItems = li\<rparr>)
       (zod_both (field [Key (js ''invoice'')] kvs ''number'' zod_string)
       (zod_both (field [Key (js ''invoice'')] kvs ''date'' zod_string)
       (zod_both (field [Key (js ''invoice'')] kvs ''currency'' currency_schema)
       (zod_both (field [Key (js ''invoice'')] kvs ''subtotal'' (zod_optional zod_number))
       (zod_both (field [Key (js ''invoice'')] kvs ''taxPercent'' (zod_optional zod_number))
       (zod_both (field [Key (js ''invoice'')] kvs ''total'' (zod_optional zod_number))
       (zod_both (field [Key (js ''invoice'')] kvs ''poNumber'' (zod_optional zod_string))
       (zod_both (field [Key (js ''invoice'')] kvs ''poDate'' (zod_optional zod_string))
                 (field [Key (js ''invoice'')] kvs ''lineItems''
                    (zod_array LineItemSchema)))))))))))"

text \<open>\<open>ExtractedDataSchema\<close> of services/aiService.ts, applied to a parsed value.\<close>

definition ExtractedDataSchema :: "json \<Rightarrow> ExtractedData zod_result" where
  "ExtractedDataSchema v = zod_object (\<lambda>kvs.
     map_sum id (\<lambda>(ve, iv). \<lparr>vendor = ve, invoice = iv\<rparr>)
       (zod_both (field [] kvs ''vendor'' VendorSchema)
                 (field [] kvs ''invoice''
                    (InvoiceSchema
                       (zod_transform (zod_nullable_optional zod_string) currency_or_INR)))))
     [] (Some v)"

text \<open>The \<open>currency\<close> entry of the \<open>invoice\<close> object of a parsed value, if there is one.\<close>

definition invoice_currency :: "json \<Rightarrow> json option" where
  "invoice_currency v =
     (case get_prop v (js ''invoice'') of None \<Rightarrow> None
      | Some iv \<Rightarrow> get_prop iv (js ''currency''))"

section \<open>AIService (services/aiService.ts, the variant with the cache)\<close>

text \<open>
  What the service reads from outside: the environment variable \<open>GEMINI_API_KEY\<close>
  (\<open>None\<close> when unset), the date \<open>new Date().toISOString().split('T')[0]\<close> (the
  same for the reads of one call), the fixed text of the prompt before and after the
  PDF text, and the upstream model: \<open>generateContent n prompt\<close> is the outcome of the
  call number \<open>n\<close> of \<open>model.generateContent(prompt)\<close> and \<open>response.text()\<close>,
  the thrown value on the left. The number of upstream calls made so far is threaded
  through the operations.
\<close>

record env = runtime +
  GEMINI_API_KEY :: "jsstring option"
  today :: jsstring
  prompt_before :: jsstring
  prompt_after :: jsstring
  generateContent :: "nat \<Rightarrow> jsstring \<Rightarrow> thrown + jsstring"

record AIService =
  cache :: "jsstring \<rightharpoonup> ExtractedData"

definition new_AIService :: AIService where
  "new_AIService = \<lparr>cache = Map.empty\<rparr>"

subsection \<open>cleanJsonResponse\<close>

definition strip_fences :: "jsstring \<Rightarrow> jsstring" where
  "strip_fences text =
     trim (remove_with_spaces (js ''```'') (remove_with_spaces (js ''```json'') text))"

definition default_document :: "jsstring \<Rightarrow> json" where
  "default_document day =
     JObject
       [(js ''vendor'', JObject
           [(js ''name'', JString (js ''Unknown Vendor'')),
            (js ''address'', JString []),
            (js ''taxId'', JString [])]),
        (js ''invoice'', JObject
           [(js ''number'', JString (js ''Unknown'')),
            (js ''date'', JString day),
            (js ''currency'', JString (js ''INR'')),
            (js ''subtotal'', JNumber (Finite 0)),
            (js ''taxPercent'', JNumber (Finite 18)),
            (js ''total'', JNumber (Finite 0)),
            (js ''poNumber'', JString []),
            (js ''poDate'', JString day),
            (js ''lineItems'', JArray [])])]"

text \<open>\<open>parsed.invoice.currency = v\<close> on a value whose \<open>invoice\<close> is an object.\<close>

fun set_invoice_currency :: "json \<Rightarrow> json \<Rightarrow> json" where
  "set_invoice_currency (JObject kvs) v =
     (case map_of kvs (js ''invoice'') of
        Some (JObject ikvs) \<Rightarrow>
          JObject (set_entry (js ''invoice'') (JObject (set_entry (js ''currency'') v ikvs)) kvs)
      | _ \<Rightarrow> JObject kvs)"
| "set_invoice_currency w v = w"

text \<open>
  The body of the inner \<open>try\<close> after \<open>JSON.parse\<close>. Reading \<open>parsed.invoice\<close> of
  \<open>null\<close> throws a \<open>TypeError\<close>, here \<open>None\<close>.
\<close>

definition fix_null_currency :: "json \<Rightarrow> json option" where
  "fix_null_currency parsed =
     (if parsed = JNull then None
      else if truthy (get_prop parsed (js ''invoice'')) \<and> invoice_currency parsed = Some JNull
      then Some (set_invoice_currency parsed (JString (js ''INR'')))
      else Some parsed)"

definition cleanJsonResponse :: "'a runtime_scheme \<Rightarrow> jsstring \<Rightarrow> jsstring \<Rightarrow> jsstring" where
  "cleanJsonResponse rt day text =
     (let cleaned = strip_fences text in
      if cleaned = [] \<or> cleaned = js ''{}'' then JSON_stringify rt (default_document day)
      else
        (case JSON_parse rt cleaned of
           Inl msg \<Rightarrow> cleaned
         | Inr parsed \<Rightarrow>
             (case fix_null_currency parsed of
                None \<Rightarrow> cleaned
              | Some fixed \<Rightarrow> JSON_stringify rt fixed)))"

text \<open>The reply \<open>```json\n{}\n```\<close>: a fenced empty object.\<close>

definition fenced_empty_object :: jsstring where
  "fenced_empty_object = js ''```json'' @ [10] @ js ''{}'' @ [10] @ js ''```''"

text \<open>\<open>JSON.parse\<close> gives back the value that \<open>JSON.stringify\<close> serialized.\<close>

definition parses_back :: "'a runtime_scheme \<Rightarrow> json \<Rightarrow> bool" where
  "parses_back rt v \<longleftrightarrow> JSON_parse rt (JSON_stringify rt v) = Inr v"

text \<open>
  The weaker property that the sanitizer needs of the runtime: what \<open>JSON.parse\<close>
  reads from the serialized value has the \<open>invoice.currency\<close> of that value.
\<close>

definition reparse_keeps_currency :: "'a runtime_scheme \<Rightarrow> json \<Rightarrow> bool" where
  "reparse_keeps_currency rt v \<longleftrightarrow>
     (\<forall>w. JSON_parse rt (JSON_stringify rt v) = Inr w \<longrightarrow>
          invoice_currency w = invoice_currency v)"

subsection \<open>The prompt, the hash and the fallback record\<close>

definition createExtractionPrompt :: "env \<Rightarrow> jsstring \<Rightarrow> jsstring" where
  "createExtractionPrompt e pdfText = prompt_before e @ pdfText @ prompt_after e"

text \<open>
  \<open>hash = ((hash << 5) - hash) + char; hash = hash & hash\<close>: every intermediate value is
  an integer below \<open>2 ^ 53\<close> in size, and \<open>& \<close> reduces it to a signed 32-bit integer.
\<close>

definition createTextHash :: "jsstring \<Rightarrow> jsstring" where
  "createTextHash text =
     int_toString (sint (fold (\<lambda>c hash. push_bit 5 hash - hash + ucast c) text (0 :: 32 word)))"

definition getFallbackData :: "jsstring \<Rightarrow> ExtractedData" where
  "getFallbackData day =
     \<lparr>vendor =
        \<lparr>name = js ''Vendor Name (Quota Exceeded)'',
         address = Some (js ''Please try again tomorrow or upgrade your API plan''),
         taxId = Some []\<rparr>,
      invoice =
        \<lparr>number = js ''INV-QUOTA-EXCEEDED'',
         date = day,
         currency = js ''INR'',
         subtotal = Some (Finite 0),
         taxPercent = Some (Finite 18),
         invoice_total = Some (Finite 0),
         poNumber = Some [],
         poDate = Some day,
         lineItems =
           [\<lparr>description = js ''API quota exceeded - please try again tomorrow'',
             unitPrice = Finite 0, quantity = Finite 1, item_total = Finite 0\<rparr>]\<rparr>\<rparr>"

subsection \<open>extractWithGemini\<close>

definition quotaError :: js_error where
  "quotaError =
     \<lparr>zod_issues = None,
      error_name = js ''QuotaExceededError'',
      message = js (''Gemini API quota exceeded. You have reached the free tier limit of '' @
        ''50 requests per day. Please try again tomorrow or upgrade to a paid plan.'')\<rparr>"

definition extractWithGemini :: "env \<Rightarrow> nat \<Rightarrow> jsstring \<Rightarrow> (thrown + jsstring) \<times> nat" where
  "extractWithGemini e calls prompt =
     (case generateContent e calls prompt of
        Inr text \<Rightarrow> (Inr text, Suc calls)
      | Inl error \<Rightarrow>
          (Inl (case error of
                  Thrown er \<Rightarrow>
                    (if message er \<noteq> [] \<and> str_includes (message er) (js ''429 Too Many Requests'')
                     then Thrown quotaError
                     else if message er \<noteq> [] \<and> str_includes (message er) (js ''API key'')
                     then Thrown (new_Error (js (''Invalid or missing Gemini API key. '' @
                            ''Please check your GEMINI_API_KEY environment variable.'')))
                     else error)
                | ThrownNonError \<Rightarrow> error),
           Suc calls))"

subsection \<open>extractDataFromPDF\<close>

text \<open>
  The argument \<open>model\<close> of \<open>extractDataFromPDF\<close> has the one value \<open>'gemini'\<close> and is
  not read by the body; the definitions leave it out. First the steps on the reply:
  sanitize, \<open>JSON.parse\<close>, \<open>ExtractedDataSchema.parse\<close>.
\<close>

definition validate_response :: "env \<Rightarrow> jsstring \<Rightarrow> thrown + ExtractedData" where
  "validate_response e extractedText =
     (let cleanedText = cleanJsonResponse e (today e) extractedText in
      case JSON_parse e cleanedText of
        Inl msg \<Rightarrow> Inl (Thrown (new_SyntaxError msg))
      | Inr parsedData \<Rightarrow>
          (case ExtractedDataSchema parsedData of
             Inl issues \<Rightarrow> Inl (Thrown (new_ZodError e issues))
           | Inr validatedData \<Rightarrow> Inr validatedData))"

text \<open>The body of the \<open>try\<close> up to the validated data.\<close>

definition extract_attempt :: "env \<Rightarrow> nat \<Rightarrow> jsstring \<Rightarrow> (thrown + ExtractedData) \<times> nat" where
  "extract_attempt e calls prompt =
     (if GEMINI_API_KEY e = None \<or> GEMINI_API_KEY e = Some []
      then (Inl (Thrown (new_Error (js ''GEMINI_API_KEY not configured''))), calls)
      else
        (case extractWithGemini e calls prompt of
           (Inl error, calls') \<Rightarrow> (Inl error, calls')
         | (Inr extractedText, calls') \<Rightarrow> (validate_response e extractedText, calls')))"

definition thrown_message :: "thrown \<Rightarrow> jsstring" where
  "thrown_message error =
     (case error of Thrown er \<Rightarrow> message er | ThrownNonError \<Rightarrow> js ''Unknown error'')"

definition is_QuotaExceededError :: "thrown \<Rightarrow> bool" where
  "is_QuotaExceededError error =
     (case error of Thrown er \<Rightarrow> error_name er = js ''QuotaExceededError''
      | ThrownNonError \<Rightarrow> False)"

definition extractDataFromPDF ::
  "env \<Rightarrow> AIService \<Rightarrow> nat \<Rightarrow> jsstring \<Rightarrow> (thrown + ExtractedData) \<times> AIService \<times> nat"
where
  "extractDataFromPDF e svc calls pdfText =
     (let textHash = createTextHash pdfText in
      case cache svc textHash of
        Some cached \<Rightarrow> (Inr cached, svc, calls)
      | None \<Rightarrow>
          (let prompt = createExtractionPrompt e pdfText in
           case extract_attempt e calls prompt of
             (Inr validatedData, calls') \<Rightarrow>
               (Inr validatedData,
                svc\<lparr>cache := (cache svc)(textHash \<mapsto> validatedData)\<rparr>, calls')
           | (Inl error, calls') \<Rightarrow>
               (if is_QuotaExceededError error
                then
                  (let fallbackData = getFallbackData (today e) in
                   (Inr fallbackData,
                    svc\<lparr>cache := (cache svc)(textHash \<mapsto> fallbackData)\<rparr>, calls'))
                else
                  (Inl (Thrown (new_Error
                     (js ''Failed to extract data with Gemini: '' @ thrown_message error))),
                   svc, calls'))))"

section \<open>The extract route (routes/extract.ts)\<close>

record ExtractRequest =
  req_fileId :: jsstring
  req_model :: jsstring
  req_fileUrl :: "jsstring option"

definition ExtractRequestSchema :: "json \<Rightarrow> ExtractRequest zod_result" where
  "ExtractRequestSchema v = zod_object (\<lambda>kvs.
     map_sum id (\<lambda>(f, m, u). \<lparr>req_fileId = f, req_model = m, req_fileUrl = u\<rparr>)
       (zod_both (field [] kvs ''fileId'' zod_string)
       (zod_both (field [] kvs ''model'' (zod_enum [js ''gemini'']))
                 (field [] kvs ''fileUrl'' (zod_optional zod_string)))))
     [] (Some v)"

datatype extract_body =
    ExtractSuccess ExtractedData
  | InvalidRequestData "zod_issue list"
  | APIQuotaExceeded jsstring QuotaInfo
  | APIConfigurationError jsstring
  | ExtractionFailed jsstring

record 'b response =
  status :: nat
  body :: 'b

text \<open>The \<open>catch\<close> clause of the handler.\<close>

definition extract_error_response :: "thrown \<Rightarrow> extract_body response" where
  "extract_error_response error =
     (case error of
        ThrownNonError \<Rightarrow> \<lparr>status = 500, body = ExtractionFailed (js ''Unknown error'')\<rparr>
      | Thrown er \<Rightarrow>
          (case zod_issues er of
             Some issues \<Rightarrow> \<lparr>status = 400, body = InvalidRequestData issues\<rparr>
           | None \<Rightarrow>
               (if error_name er = js ''QuotaExceededError''
                then \<lparr>status = 429, body = APIQuotaExceeded (message er) (getQuotaInfo er)\<rparr>
                else if str_includes (message er) (js ''API key'')
                then \<lparr>status = 401, body = APIConfigurationError (message er)\<rparr>
                else \<lparr>status = 500, body = ExtractionFailed (message er)\<rparr>)))"

text \<open>
  \<open>POST /api/extract\<close>. Fetching the bytes of the PDF and extracting its text
  (lines 21 to 43) is the parameter \<open>pdf_text\<close>: the thrown value or the text. Every
  request constructs its own \<open>AIService\<close>.
\<close>

definition post_extract ::
  "env \<Rightarrow> (ExtractRequest \<Rightarrow> thrown + jsstring) \<Rightarrow> nat \<Rightarrow> json \<Rightarrow> extract_body response \<times> nat"
where
  "post_extract e pdf_text calls req_body =
     (case ExtractRequestSchema req_body of
        Inl issues \<Rightarrow> (extract_error_response (Thrown (new_ZodError e issues)), calls)
      | Inr req \<Rightarrow>
          (case pdf_text req of
             Inl error \<Rightarrow> (extract_error_response error, calls)
           | Inr text \<Rightarrow>
               (let aiService = new_AIService in
                case extractDataFromPDF e aiService calls text of
                  (Inr extractedData, svc, calls') \<Rightarrow>
                    (\<lparr>status = 200, body = ExtractSuccess extractedData\<rparr>, calls')
                | (Inl error, svc, calls') \<Rightarrow> (extract_error_response error, calls'))))"

section \<open>The invoices route (routes/invoices.ts)\<close>

record CreateInvoice =
  fileId :: jsstring
  fileName :: jsstring
  fileUrl :: "jsstring option"
  new_vendor :: Vendor
  new_invoice :: "jsstring option InvoiceData"

definition CreateInvoiceSchema :: "json \<Rightarrow> CreateInvoice zod_result" where
  "CreateInvoiceSchema v = zod_object (\<lambda>kvs.
     map_sum id
       (\<lambda>(f, n, u, ve, iv).
          \<lparr>fileId = f, fileName = n, fileUrl = u, new_vendor = ve, new_invoice = iv\<rparr>)
       (zod_both (field [] kvs ''fileId'' zod_string)
       (zod_both (field [] kvs ''fileName'' zod_string)
       (zod_both (field [] kvs ''fileUrl'' (zod_optional zod_string))
       (zod_both (field [] kvs ''vendor'' VendorSchema)
                 (field [] kvs ''invoice'' (InvoiceSchema (zod_optional zod_string))))))))
     [] (Some v)"

text \<open>A document of the \<open>Invoice\<close> model (models/Invoice.ts) as the collection holds it.\<close>

record StoredInvoice =
  doc_id :: jsstring
  doc_fileId :: jsstring
  doc_fileName :: jsstring
  doc_vendor :: Vendor
  doc_invoice :: "jsstring InvoiceData"
  createdAt :: int
  updatedAt :: "int option"

text \<open>
  The numbers of the pagination block are JavaScript numbers: \<open>page\<close> and \<open>limit\<close>
  are the binary64 values that \<open>parseInt\<close> returned, \<open>total\<close> is the count of the
  database and \<open>pages\<close> the integer that \<open>Math.ceil\<close> returned.
\<close>

record Pagination =
  page :: real
  page_limit :: real
  total :: nat
  pages :: int

datatype invoices_body =
    InvoiceList "StoredInvoice list" Pagination
  | InvoiceCreated StoredInvoice
  | InvalidInvoiceData "zod_issue list"
  | InvoiceAlreadyExists
  | InvoicesFailed jsstring jsstring

text \<open>
  What the handlers ask of the object-document mapper and the database. A query
  (\<open>find\<close>, \<open>findOne\<close>, \<open>countDocuments\<close>) is rejected with \<open>query_failure\<close> when the
  database does not answer it. \<open>regex pat\<close> is the test of a string against the
  pattern of \<open>$regex\<close> with option \<open>i\<close>, or the rejection of the pattern.
  \<open>new Invoice(invoiceData)\<close> followed by \<open>invoice.save()\<close> is \<open>save\<close>: the document
  that is stored, or the thrown value.
\<close>

record database =
  query_failure :: "thrown option"
  regex :: "jsstring \<Rightarrow> thrown + (jsstring \<Rightarrow> bool)"
  save :: "StoredInvoice list \<Rightarrow> CreateInvoice \<Rightarrow> thrown + StoredInvoice"

text \<open>\<open>Invoice.findOne({ fileId })\<close>.\<close>

definition findOne_fileId ::
  "database \<Rightarrow> StoredInvoice list \<Rightarrow> jsstring \<Rightarrow> thrown + StoredInvoice option" where
  "findOne_fileId db store fid =
     (case query_failure db of
        Some error \<Rightarrow> Inl error
      | None \<Rightarrow> Inr (find (\<lambda>d. doc_fileId d = fid) store))"

text \<open>The \<open>catch\<close> clause of the creation handler.\<close>

definition create_error_response :: "thrown \<Rightarrow> invoices_body response" where
  "create_error_response error =
     (case error of
        ThrownNonError \<Rightarrow>
          \<lparr>status = 500,
           body = InvoicesFailed (js ''Failed to create invoice'') (js ''Unknown error'')\<rparr>
      | Thrown er \<Rightarrow>
          (case zod_issues er of
             Some issues \<Rightarrow> \<lparr>status = 400, body = InvalidInvoiceData issues\<rparr>
           | None \<Rightarrow>
               \<lparr>status = 500,
                body = InvoicesFailed (js ''Failed to create invoice'') (message er)\<rparr>))"

text \<open>
  \<open>POST /api/invoices\<close>. A body that \<open>CreateInvoiceSchema.parse\<close> rejects throws a
  \<open>ZodError\<close> with the issues, which the \<open>catch\<close> clause answers with 400.
\<close>

definition post_invoices ::
  "database \<Rightarrow> StoredInvoice list \<Rightarrow> json \<Rightarrow> invoices_body response \<times> StoredInvoice list"
where
  "post_invoices db store req_body =
     (case CreateInvoiceSchema req_body of
        Inl issues \<Rightarrow> (\<lparr>status = 400, body = InvalidInvoiceData issues\<rparr>, store)
      | Inr invoiceData \<Rightarrow>
          (case findOne_fileId db store (fileId invoiceData) of
             Inl error \<Rightarrow> (create_error_response error, store)
           | Inr (Some existingInvoice) \<Rightarrow>
               (\<lparr>status = 409, body = InvoiceAlreadyExists\<rparr>, store)
           | Inr None \<Rightarrow>
               (case save db store invoiceData of
                  Inl error \<Rightarrow> (create_error_response error, store)
                | Inr doc \<Rightarrow> (\<lparr>status = 201, body = InvoiceCreated doc\<rparr>, store @ [doc]))))"

subsection \<open>Listing\<close>

text \<open>
  \<open>parseInt(s)\<close> reads leading whitespace, an optional sign, then hexadecimal digits
  after \<open>0x\<close> or \<open>0X\<close>, decimal digits otherwise, up to the first other code unit.
  \<open>parse_integer\<close> is the integer so written (\<open>None\<close> when there is no digit), and
  \<open>parseInt\<close> the JavaScript number returned: \<open>NaN\<close> when there is no digit,
  otherwise the integer as a binary64 value, rounded by \<open>rnd\<close>, or an infinity when
  it is beyond the finite range. (For more than 20 significant decimal digits an
  implementation may round a nearby integer instead.)
\<close>

definition digit_of :: "nat \<Rightarrow> 16 word \<Rightarrow> nat option" where
  "digit_of radix c =
     (if 48 \<le> c \<and> c \<le> 57 then Some (unat c - 48)
      else if radix = 16 \<and> 97 \<le> c \<and> c \<le> 102 then Some (unat c - 87)
      else if radix = 16 \<and> 65 \<le> c \<and> c \<le> 70 then Some (unat c - 55)
      else None)"

fun digits_value :: "nat \<Rightarrow> nat \<Rightarrow> jsstring \<Rightarrow> nat" where
  "digits_value radix acc [] = acc"
| "digits_value radix acc (c # cs) =
     (case digit_of radix c of
        None \<Rightarrow> acc
      | Some d \<Rightarrow> digits_value radix (acc * radix + d) cs)"

definition parse_digits :: "nat \<Rightarrow> jsstring \<Rightarrow> nat option" where
  "parse_digits radix s =
     (case s of
        [] \<Rightarrow> None
      | c # cs \<Rightarrow> (if digit_of radix c = None then None else Some (digits_value radix 0 s)))"

definition parse_integer :: "jsstring \<Rightarrow> int option" where
  "parse_integer s =
     (let s1 = dropWhile is_whitespace s;
          negative = (s1 \<noteq> [] \<and> hd s1 = 45);
          s2 = (if s1 \<noteq> [] \<and> (hd s1 = 45 \<or> hd s1 = 43) then tl s1 else s1);
          hex = (prefix (js ''0x'') s2 \<or> prefix (js ''0X'') s2);
          magnitude = (if hex then parse_digits 16 (drop 2 s2) else parse_digits 10 s2)
      in map_option (\<lambda>n. if negative then - int n else int n) magnitude)"

text \<open>
  The binary64 value of a real number: rounded by \<open>rnd\<close> inside the finite range, an
  infinity from \<open>2 ^ 1024 - 2 ^ 970\<close> on, halfway between the largest finite value and
  \<open>2 ^ 1024\<close>.
\<close>

definition binary64_of :: "(real \<Rightarrow> real) \<Rightarrow> real \<Rightarrow> jsnumber" where
  "binary64_of rnd x =
     (if x \<le> - (2 ^ 1024 - 2 ^ 970) then NegInfinity
      else if 2 ^ 1024 - 2 ^ 970 \<le> x then PosInfinity
      else Finite (rnd x))"

definition parseInt :: "(real \<Rightarrow> real) \<Rightarrow> jsstring \<Rightarrow> jsnumber" where
  "parseInt rnd s =
     (case parse_integer s of
        None \<Rightarrow> NaN
      | Some n \<Rightarrow> binary64_of rnd (real_of_int n))"







section \<open>Concrete surroundings\<close>

text \<open>
  A finite fragment of \<open>JSON.parse\<close> and \<open>JSON.stringify\<close>, given as a table of
  texts and the values they denote, and an environment around it, to run the
  definitions on concrete inputs.
\<close>

definition table_runtime :: "(jsstring \<times> json) list \<Rightarrow> runtime" where
  "table_runtime table =
     \<lparr>JSON_parse =
        (\<lambda>s. case map_of table s of
               Some v \<Rightarrow> Inr v
             | None \<Rightarrow> Inl (js ''Unexpected token'')),
      JSON_stringify =
        (\<lambda>v. case find (\<lambda>(s, w). w = v) table of Some (s, w) \<Rightarrow> s | None \<Rightarrow> []),
      zod_message = (\<lambda>issues. js ''Invalid input'')\<rparr>"

definition table_env ::
  "(jsstring \<times> json) list \<Rightarrow> jsstring option \<Rightarrow> (nat \<Rightarrow> jsstring \<Rightarrow> thrown + jsstring) \<Rightarrow> env"
where
  "table_env table key upstream =
     \<lparr>JSON_parse = JSON_parse (table_runtime table),
      JSON_stringify = JSON_stringify (table_runtime table),
      zod_message = zod_message (table_runtime table),
      GEMINI_API_KEY = key,
      today = js ''2025-01-15'',
      prompt_before = js ''PDF Text: '',
      prompt_after = [],
      generateContent = upstream\<rparr>"

definition default_document_text :: jsstring where
  \<open>default_document_text =
     js (''{"vendor":{"name":"Unknown Vendor","address":"","taxId":""},'' @
         ''"invoice":{"number":"Unknown","date":"2025-01-15","currency":"INR",'' @
         ''"subtotal":0,"taxPercent":18,"total":0,"poNumber":"",'' @
         ''"poDate":"2025-01-15","lineItems":[]}}'')\<close>

definition null_currency_text :: jsstring where
  \<open>null_currency_text =
     js (''{"vendor":{"name":"Acme"},"invoice":{"number":"7","date":"2025-01-02",'' @
         ''"currency":null,"lineItems":[]}}'')\<close>

definition null_currency_value :: "json \<Rightarrow> json" where
  "null_currency_value c =
     JObject
       [(js ''vendor'', JObject [(js ''name'', JString (js ''Acme''))]),
        (js ''invoice'', JObject
           [(js ''number'', JString (js ''7'')),
            (js ''date'', JString (js ''2025-01-02'')),
            (js ''currency'', c),
            (js ''lineItems'', JArray [])])]"

definition INR_currency_text :: jsstring where
  \<open>INR_currency_text =
     js (''{"vendor":{"name":"Acme"},"invoice":{"number":"7","date":"2025-01-02",'' @
         ''"currency":"INR","lineItems":[]}}'')\<close>

definition json_table :: "(jsstring \<times> json) list" where
  "json_table =
     [(js ''{}'', JObject []),
      (default_document_text, default_document (js ''2025-01-15'')),
      (null_currency_text, null_currency_value JNull),
      (INR_currency_text, null_currency_value (JString (js ''INR'')))]"

definition example_request :: json where
  "example_request =
     JObject
       [(js ''fileId'', JString (js ''f1'')),
        (js ''model'', JString (js ''gemini'')),
        (js ''fileUrl'', JString (js ''https://example.com/f1.pdf''))]"

definition acme_data :: ExtractedData where
  "acme_data =
     \<lparr>vendor = \<lparr>name = js ''Acme'', address = None, taxId = None\<rparr>,
      invoice =
        \<lparr>number = js ''7'', date = js ''2025-01-02'', currency = js ''INR'',
         subtotal = None, taxPercent = None, invoice_total = None, poNumber = None,
         poDate = None, lineItems = []\<rparr>\<rparr>"

definition default_data :: "jsstring \<Rightarrow> ExtractedData" where
  "default_data day =
     \<lparr>vendor = \<lparr>name = js ''Unknown Vendor'', address = Some [], taxId = Some []\<rparr>,
      invoice =
        \<lparr>number = js ''Unknown'', date = day, currency = js ''INR'',
         subtotal = Some (Finite 0), taxPercent = Some (Finite 18),
         invoice_total = Some (Finite 0), poNumber = Some [], poDate = Some day,
         lineItems = []\<rparr>\<rparr>"

definition example_doc :: StoredInvoice where
  "example_doc =
     \<lparr>doc_id = js ''65a1'',
      doc_fileId = js ''f1'',
      doc_fileName = js ''invoice.pdf'',
      doc_vendor = vendor acme_data,
      doc_invoice = invoice acme_data,
      createdAt = 1700000000000,
      updatedAt = Some 1700000000000\<rparr>"

definition example_create_body :: json where
  "example_create_body =
     JObject
       [(js ''fileId'', JString (js ''f1'')),
        (js ''fileName'', JString (js ''again.pdf'')),
        (js ''vendor'', JObject [(js ''name'', JString (js ''Other''))]),
        (js ''invoice'', JObject
           [(js ''number'', JString (js ''8'')),
            (js ''date'', JString (js ''2025-02-01'')),
            (js ''lineItems'', JArray [])])]"



definition idle_database :: database where
  "idle_database =
     \<lparr>query_failure = None,
      regex = (\<lambda>pat. Inl ThrownNonError),
      save = (\<lambda>store invoiceData. Inl ThrownNonError)\<rparr>"

definition fileId_only_body :: json where
  "fileId_only_body = JObject [(js ''fileId'', JString (js ''f1''))]"

section \<open>Properties of the schemas\<close>

lemma zod_both_Inr: "zod_both a b = Inr z \<longleftrightarrow> (\<exists>x y. a = Inr x \<and> b = Inr y \<and> z = (x, y))"
  by (auto simp: zod_both_def split: sum.splits)

lemma map_sum_id_Inr: "map_sum id f r = Inr y \<longleftrightarrow> (\<exists>x. r = Inr x \<and> y = f x)"
  by (cases r) auto

lemma zod_object_Inr:
  "zod_object shape p v = Inr d \<longleftrightarrow> (\<exists>kvs. v = Some (JObject kvs) \<and> shape kvs = Inr d)"
  by (auto simp: zod_object_def split: option.splits json.splits)

lemma currency_schema_Inr:
  "zod_transform (zod_nullable_optional zod_string) currency_or_INR p v = Inr c \<Longrightarrow>
   c = (case v of Some (JString s) \<Rightarrow> (if s \<noteq> [] then s else js ''INR'') | _ \<Rightarrow> js ''INR'')"
  by (auto simp: zod_transform_def zod_nullable_optional_def zod_string_def currency_or_INR_def
      map_sum_id_Inr split: option.splits json.splits if_splits)

lemma InvoiceSchema_currency:
  assumes "InvoiceSchema cs p v = Inr d"
  shows "\<exists>kvs. v = Some (JObject kvs) \<and>
           cs [Key (js ''invoice''), Key (js ''currency'')] (map_of kvs (js ''currency'')) = Inr (currency d)"
  using assms
  by (auto simp: InvoiceSchema_def zod_object_Inr map_sum_id_Inr zod_both_Inr field_def)

lemma ExtractedDataSchema_invoice:
  assumes "ExtractedDataSchema v = Inr d"
  shows "\<exists>kvs. v = JObject kvs \<and>
           InvoiceSchema (zod_transform (zod_nullable_optional zod_string) currency_or_INR)
             [Key (js ''invoice'')] (map_of kvs (js ''invoice'')) = Inr (invoice d)"
  using assms
  by (auto simp: ExtractedDataSchema_def zod_object_Inr map_sum_id_Inr zod_both_Inr field_def)

lemma ExtractedDataSchema_currency:
  assumes "ExtractedDataSchema v = Inr d"
  shows "currency (invoice d) =
           (case invoice_currency v of
              Some (JString s) \<Rightarrow> (if s \<noteq> [] then s else js ''INR'')
            | _ \<Rightarrow> js ''INR'')"
proof -
  obtain kvs where v: "v = JObject kvs"
    and inv: "InvoiceSchema (zod_transform (zod_nullable_optional zod_string) currency_or_INR)
             [Key (js ''invoice'')] (map_of kvs (js ''invoice'')) = Inr (invoice d)"
    using ExtractedDataSchema_invoice [OF assms] by blast
  obtain ikvs where iv: "map_of kvs (js ''invoice'') = Some (JObject ikvs)"
    and c: "zod_transform (zod_nullable_optional zod_string) currency_or_INR
              [Key (js ''invoice''), Key (js ''currency'')] (map_of ikvs (js ''currency''))
            = Inr (currency (invoice d))"
    using InvoiceSchema_currency [OF inv] by blast
  have "invoice_currency v = map_of ikvs (js ''currency'')"
    by (simp add: invoice_currency_def v iv)
  with currency_schema_Inr [OF c] show ?thesis by simp
qed

lemma INR_nonempty: "js ''INR'' \<noteq> []"
  by (simp add: js_def)

text \<open>
  Claim C9. Whenever \<open>ExtractedDataSchema\<close> accepts a value, the \<open>currency\<close> of its
  output is a non-empty string: an absent, a \<open>null\<close> and an empty \<open>currency\<close> all
  become \<open>INR\<close>, and a non-empty one is kept.
\<close>

theorem validated_currency_nonempty:
  assumes "ExtractedDataSchema v = Inr d"
  shows "currency (invoice d) \<noteq> [] \<and>
         (invoice_currency v = None \<or> invoice_currency v = Some JNull \<or>
          invoice_currency v = Some (JString []) \<longrightarrow> currency (invoice d) = js ''INR'') \<and>
         (\<forall>s. invoice_currency v = Some (JString s) \<and> s \<noteq> [] \<longrightarrow> currency (invoice d) = s)"
  using ExtractedDataSchema_currency [OF assms] INR_nonempty
  by (auto split: option.splits json.splits if_splits)

text \<open>A value with the empty string as its currency is accepted, with \<open>INR\<close>.\<close>

theorem validated_currency_nonempty_witness:
  "ExtractedDataSchema (null_currency_value (JString [])) =
     Inr \<lparr>vendor = \<lparr>name = js ''Acme'', address = None, taxId = None\<rparr>,
          invoice = \<lparr>number = js ''7'', date = js ''2025-01-02'', currency = js ''INR'',
            subtotal = None, taxPercent = None, invoice_total = None, poNumber = None,
            poDate = None, lineItems = []\<rparr>\<rparr> \<and>
   invoice_currency (null_currency_value (JString [])) = Some (JString []) \<and>
   currency (invoice \<lparr>vendor = \<lparr>name = js ''Acme'', address = None, taxId = None\<rparr>,
          invoice = \<lparr>number = js ''7'', date = js ''2025-01-02'', currency = js ''INR'',
            subtotal = None, taxPercent = None, invoice_total = None, poNumber = None,
            poDate = None, lineItems = []\<rparr>\<rparr>) \<noteq> []"
proof -
  have v: "ExtractedDataSchema (null_currency_value (JString [])) =
     Inr \<lparr>vendor = \<lparr>name = js ''Acme'', address = None, taxId = None\<rparr>,
          invoice = \<lparr>number = js ''7'', date = js ''2025-01-02'', currency = js ''INR'',
            subtotal = None, taxPercent = None, invoice_total = None, poNumber = None,
            poDate = None, lineItems = []\<rparr>\<rparr>"
    by (simp add: ExtractedDataSchema_def null_currency_value_def zod_object_def field_def
        VendorSchema_def InvoiceSchema_def zod_both_def zod_string_def zod_optional_def
        zod_transform_def zod_nullable_optional_def currency_or_INR_def zod_array_def js_def)
  have c: "invoice_currency (null_currency_value (JString [])) = Some (JString [])"
    by (simp add: invoice_currency_def null_currency_value_def js_def)
  show ?thesis using validated_currency_nonempty [OF v] v c by simp
qed

section \<open>Properties of the sanitizer\<close>

lemma map_of_set_entry: "map_of (set_entry k v kvs) k = Some v"
  by (induction kvs) auto

lemma invoice_currency_set:
  assumes "invoice_currency parsed = Some c"
  shows "invoice_currency (set_invoice_currency parsed v) = Some v"
proof -
  obtain kvs where p: "parsed = JObject kvs"
    using assms by (cases parsed) (simp_all add: invoice_currency_def)
  obtain iv where iv: "map_of kvs (js ''invoice'') = Some iv" and c: "get_prop iv (js ''currency'') = Some c"
    using assms by (auto simp: invoice_currency_def p split: option.splits)
  obtain ikvs where ikvs: "iv = JObject ikvs"
    using c by (cases iv) simp_all
  show ?thesis
    by (simp add: p iv ikvs invoice_currency_def map_of_set_entry)
qed

lemma invoice_currency_default_document:
  "invoice_currency (default_document day) = Some (JString (js ''INR''))"
  by (simp add: invoice_currency_def default_document_def js_def)

lemma ExtractedDataSchema_not_null: "ExtractedDataSchema JNull \<noteq> Inr d"
  by (simp add: ExtractedDataSchema_def zod_object_def)

lemma invoice_currency_truthy:
  assumes "invoice_currency parsed = Some c"
  shows "truthy (get_prop parsed (js ''invoice''))"
proof -
  obtain iv where iv: "get_prop parsed (js ''invoice'') = Some iv"
    and c: "get_prop iv (js ''currency'') = Some c"
    using assms by (auto simp: invoice_currency_def split: option.splits)
  from c show ?thesis by (cases iv) (simp_all add: iv)
qed

lemma fix_null_currency_cases:
  assumes "fix_null_currency parsed = Some fixed"
    and "invoice_currency parsed = None \<or> invoice_currency parsed = Some JNull"
  shows "invoice_currency fixed = None \<or> invoice_currency fixed = Some (JString (js ''INR''))"
  using assms invoice_currency_set [of parsed JNull "JString (js ''INR'')"]
    invoice_currency_truthy [of parsed JNull]
  by (auto simp: fix_null_currency_def split: if_splits)

lemma strip_fences_fenced_empty_object:
  "strip_fences fenced_empty_object = js ''{}''"
  by (simp add: strip_fences_def fenced_empty_object_def trim_def js_def is_whitespace_def)

lemma ExtractedDataSchema_default_document:
  "ExtractedDataSchema (default_document day) =
     Inr \<lparr>vendor = \<lparr>name = js ''Unknown Vendor'', address = Some [], taxId = Some []\<rparr>,
          invoice = \<lparr>number = js ''Unknown'', date = day, currency = js ''INR'',
            subtotal = Some (Finite 0), taxPercent = Some (Finite 18),
            invoice_total = Some (Finite 0), poNumber = Some [], poDate = Some day,
            lineItems = []\<rparr>\<rparr>"
  by (simp add: ExtractedDataSchema_def default_document_def zod_object_def field_def
        VendorSchema_def InvoiceSchema_def zod_both_def zod_string_def zod_optional_def
        zod_number_def zod_transform_def zod_nullable_optional_def currency_or_INR_def
        zod_array_def js_def)

text \<open>
  Claim C3. For the reply \<open>```json\n{}\n```\<close>, and for every reply that fence
  stripping and trimming reduce to the empty string or to \<open>{}\<close>,
  \<open>cleanJsonResponse\<close> returns the serialized default document. That document is
  accepted by the schema as: vendor name \<open>Unknown Vendor\<close>, invoice number
  \<open>Unknown\<close>, the date of the day (also as the purchase order date), currency
  \<open>INR\<close>, tax percent 18, subtotal and total 0, and no line items.
\<close>

theorem cleanJsonResponse_default_document:
  "cleanJsonResponse rt day fenced_empty_object =
     JSON_stringify rt (default_document day) \<and>
   (strip_fences text = [] \<or> strip_fences text = js ''{}'' \<longrightarrow>
      cleanJsonResponse rt day text = JSON_stringify rt (default_document day)) \<and>
   ExtractedDataSchema (default_document day) =
     Inr \<lparr>vendor = \<lparr>name = js ''Unknown Vendor'', address = Some [], taxId = Some []\<rparr>,
          invoice = \<lparr>number = js ''Unknown'', date = day, currency = js ''INR'',
            subtotal = Some (Finite 0), taxPercent = Some (Finite 18),
            invoice_total = Some (Finite 0), poNumber = Some [], poDate = Some day,
            lineItems = []\<rparr>\<rparr>"
  by (simp add: cleanJsonResponse_def strip_fences_fenced_empty_object
      ExtractedDataSchema_default_document)

text \<open>A reply of a fence, a space and a line feed is reduced to the empty string.\<close>

theorem cleanJsonResponse_default_document_witness:
  "strip_fences (js ''``` '' @ [10]) = [] \<and>
   cleanJsonResponse (table_runtime json_table) (js ''2025-01-15'') (js ''``` '' @ [10]) =
     default_document_text"
proof -
  have s: "strip_fences (js ''``` '' @ [10]) = []"
    by (simp add: strip_fences_def trim_def js_def is_whitespace_def)
  have t: "JSON_stringify (table_runtime json_table) (default_document (js ''2025-01-15'')) =
      default_document_text"
    by (simp add: table_runtime_def json_table_def default_document_def)
  show ?thesis
    using cleanJsonResponse_default_document
      [of "table_runtime json_table" "js ''2025-01-15''" "js ''``` '' @ [10]"] s t
    by simp
qed

lemma parses_back_keeps_currency: "parses_back rt v \<Longrightarrow> reparse_keeps_currency rt v"
  by (auto simp: parses_back_def reparse_keeps_currency_def)

text \<open>
  Claim C4. Let the reply, with fences stripped and trimmed, parse to a value whose
  \<open>invoice.currency\<close> is \<open>null\<close> or absent, and let \<open>JSON.parse\<close> read, from what
  the sanitizer serialized with \<open>JSON.stringify\<close>, a value with the same
  \<open>invoice.currency\<close> (as it does when it gives back the serialized value). Then
  whenever the reply is validated, the \<open>currency\<close> of the validated record is \<open>INR\<close>;
  its type is a string, so it is not \<open>null\<close>.
\<close>

theorem null_or_absent_currency_gives_INR:
  assumes parsed: "JSON_parse e (strip_fences text) = Inr parsed"
    and cur: "invoice_currency parsed = None \<or> invoice_currency parsed = Some JNull"
    and keep_default: "reparse_keeps_currency e (default_document (today e))"
    and keep_fixed:
      "\<forall>fixed. fix_null_currency parsed = Some fixed \<longrightarrow> reparse_keeps_currency e fixed"
    and ok: "validate_response e text = Inr d"
  shows "currency (invoice d) = js ''INR''"
proof -
  let ?cleaned = "cleanJsonResponse e (today e) text"
  obtain w where w: "JSON_parse e ?cleaned = Inr w" and d: "ExtractedDataSchema w = Inr d"
    using ok by (auto simp: validate_response_def Let_def split: sum.splits)
  have "invoice_currency w = None \<or> invoice_currency w = Some (JString (js ''INR''))"
  proof (cases "strip_fences text = [] \<or> strip_fences text = js ''{}''")
    case True
    then have "?cleaned = JSON_stringify e (default_document (today e))"
      by (simp add: cleanJsonResponse_def)
    with w keep_default have "invoice_currency w = invoice_currency (default_document (today e))"
      by (simp add: reparse_keeps_currency_def)
    then show ?thesis by (simp add: invoice_currency_default_document)
  next
    case False
    show ?thesis
    proof (cases "fix_null_currency parsed")
      case None
      then have "?cleaned = strip_fences text"
        using False parsed by (simp add: cleanJsonResponse_def Let_def)
      with w parsed have "w = parsed" by simp
      moreover from None have "parsed = JNull"
        by (simp add: fix_null_currency_def split: if_splits)
      ultimately show ?thesis using d ExtractedDataSchema_not_null by simp
    next
      case (Some fixed)
      then have "?cleaned = JSON_stringify e fixed"
        using False parsed by (simp add: cleanJsonResponse_def Let_def)
      moreover have "reparse_keeps_currency e fixed" using keep_fixed Some by simp
      ultimately have "invoice_currency w = invoice_currency fixed"
        using w by (simp add: reparse_keeps_currency_def)
      with fix_null_currency_cases [OF Some cur] show ?thesis by simp
    qed
  qed
  with ExtractedDataSchema_currency [OF d] show ?thesis by auto
qed

lemma strip_fences_null_currency_text: "strip_fences null_currency_text = null_currency_text"
  by (simp add: strip_fences_def null_currency_text_def trim_def js_def is_whitespace_def)

lemma table_parse_null_currency_text:
  "JSON_parse (table_env json_table key up) null_currency_text = Inr (null_currency_value JNull)"
  by (simp add: table_env_def table_runtime_def json_table_def null_currency_text_def
      default_document_text_def js_def)

lemma fix_null_currency_value:
  "fix_null_currency (null_currency_value JNull) = Some (null_currency_value (JString (js ''INR'')))"
  by (simp add: fix_null_currency_def null_currency_value_def invoice_currency_def js_def)

lemma table_parses_back_INR:
  "parses_back (table_env json_table key up) (null_currency_value (JString (js ''INR'')))"
  by (simp add: parses_back_def table_env_def table_runtime_def json_table_def
      null_currency_value_def default_document_def
      null_currency_text_def INR_currency_text_def default_document_text_def js_def)

lemma table_parses_back_default:
  "parses_back (table_env json_table key up) (default_document (js ''2025-01-15''))"
  by (simp add: parses_back_def table_env_def table_runtime_def json_table_def
      null_currency_value_def default_document_def
      null_currency_text_def INR_currency_text_def default_document_text_def js_def)


lemma ExtractedDataSchema_INR_value:
  "ExtractedDataSchema (null_currency_value (JString (js ''INR''))) = Inr acme_data"
  by (simp add: ExtractedDataSchema_def null_currency_value_def zod_object_def field_def
      VendorSchema_def InvoiceSchema_def zod_both_def zod_string_def zod_optional_def
      zod_transform_def zod_nullable_optional_def currency_or_INR_def zod_array_def js_def
      acme_data_def)

lemma null_currency_text_not_trivial:
  "null_currency_text \<noteq> [] \<and> null_currency_text \<noteq> js ''{}''"
  by (simp add: null_currency_text_def js_def)

lemma validate_null_currency_text:
  "validate_response (table_env json_table key up) null_currency_text = Inr acme_data"
proof -
  let ?e = "table_env json_table key up"
  have "cleanJsonResponse ?e (today ?e) null_currency_text =
      JSON_stringify ?e (null_currency_value (JString (js ''INR'')))"
    using null_currency_text_not_trivial table_parse_null_currency_text [of key up]
      fix_null_currency_value
    by (simp add: cleanJsonResponse_def strip_fences_null_currency_text)
  then show ?thesis
    using table_parses_back_INR [of key up] ExtractedDataSchema_INR_value
    by (simp add: validate_response_def parses_back_def)
qed

lemma table_env_today: "today (table_env table key up) = js ''2025-01-15''"
  by (simp add: table_env_def)

lemma validate_fenced_empty_object:
  "validate_response (table_env json_table key up) fenced_empty_object =
     Inr (default_data (js ''2025-01-15''))"
proof -
  let ?e = "table_env json_table key up"
  have "cleanJsonResponse ?e (today ?e) fenced_empty_object =
      JSON_stringify ?e (default_document (js ''2025-01-15''))"
    by (simp add: cleanJsonResponse_def strip_fences_fenced_empty_object table_env_today)
  then show ?thesis
    using table_parses_back_default [of key up] ExtractedDataSchema_default_document
    by (simp add: validate_response_def parses_back_def default_data_def)
qed

text \<open>
  The reply \<open>{"vendor":{"name":"Acme"},"invoice":{"number":"7","date":"2025-01-02",
  "currency":null,"lineItems":[]}}\<close> is validated with currency \<open>INR\<close>.
\<close>

theorem null_or_absent_currency_gives_INR_witness:
  "JSON_parse (table_env json_table None (\<lambda>n p. Inr null_currency_text))
     (strip_fences null_currency_text) = Inr (null_currency_value JNull) \<and>
   invoice_currency (null_currency_value JNull) = Some JNull \<and>
   reparse_keeps_currency (table_env json_table None (\<lambda>n p. Inr null_currency_text))
     (default_document (today (table_env json_table None (\<lambda>n p. Inr null_currency_text)))) \<and>
   fix_null_currency (null_currency_value JNull) =
     Some (null_currency_value (JString (js ''INR''))) \<and>
   reparse_keeps_currency (table_env json_table None (\<lambda>n p. Inr null_currency_text))
     (null_currency_value (JString (js ''INR''))) \<and>
   validate_response (table_env json_table None (\<lambda>n p. Inr null_currency_text))
     null_currency_text = Inr acme_data \<and>
   currency (invoice acme_data) = js ''INR''"
proof -
  let ?e = "table_env json_table None (\<lambda>n p. Inr null_currency_text)"
  have h1: "JSON_parse ?e (strip_fences null_currency_text) = Inr (null_currency_value JNull)"
    by (simp only: strip_fences_null_currency_text table_parse_null_currency_text)
  have c: "invoice_currency (null_currency_value JNull) = Some JNull"
    by (simp add: invoice_currency_def null_currency_value_def js_def)
  then have h2: "invoice_currency (null_currency_value JNull) = None \<or>
      invoice_currency (null_currency_value JNull) = Some JNull" by simp
  have h3: "reparse_keeps_currency ?e (default_document (today ?e))"
    by (simp only: table_env_today table_parses_back_default parses_back_keeps_currency)
  have h4: "\<forall>fixed. fix_null_currency (null_currency_value JNull) = Some fixed \<longrightarrow>
      reparse_keeps_currency ?e fixed"
    by (simp add: fix_null_currency_value table_parses_back_INR parses_back_keeps_currency)
  have h5: "validate_response ?e null_currency_text = Inr acme_data"
    by (rule validate_null_currency_text)
  have "currency (invoice acme_data) = js ''INR''"
    using null_or_absent_currency_gives_INR [OF h1 h2 h3 h4 h5] .
  then show ?thesis
    using h1 c h3 h5 fix_null_currency_value
      parses_back_keeps_currency [OF table_parses_back_INR]
    by simp
qed

section \<open>Properties of the extraction\<close>

lemma extractDataFromPDF_cached:
  "cache svc (createTextHash t) = Some r \<Longrightarrow> extractDataFromPDF e svc calls t = (Inr r, svc, calls)"
  by (simp add: extractDataFromPDF_def)

lemma extractDataFromPDF_success_caches:
  assumes "extractDataFromPDF e svc calls t = (Inr r, svc', calls')"
  shows "cache svc' (createTextHash t) = Some r"
  using assms
  by (auto simp: extractDataFromPDF_def Let_def split: option.splits sum.splits prod.splits if_splits)

text \<open>
  On one \<open>AIService\<close> object the cache does what claim C2 says: after a call that
  returned a record, a call with a text of the same hash returns that record, whatever
  the environment, with the object and the count of upstream calls unchanged.
\<close>

lemma extractDataFromPDF_same_instance:
  assumes "extractDataFromPDF e svc calls t1 = (Inr r, svc', calls')"
    and "createTextHash t2 = createTextHash t1"
  shows "extractDataFromPDF e2 svc' calls2 t2 = (Inr r, svc', calls2)"
  using extractDataFromPDF_success_caches [OF assms(1)] assms(2)
  by (simp add: extractDataFromPDF_cached)

text \<open>
  A failure of \<open>extractDataFromPDF\<close> is always a new plain \<open>Error\<close>, which the
  handler answers with 401 or 500.
\<close>

lemma extractDataFromPDF_error_is_plain:
  assumes "extractDataFromPDF e svc calls t = (Inl err, svc', calls')"
  shows "\<exists>er. err = Thrown (new_Error (js ''Failed to extract data with Gemini: '' @ thrown_message er)) \<and> svc' = svc"
  using assms
  by (auto simp: extractDataFromPDF_def Let_def split: option.splits sum.splits prod.splits if_splits)

lemma extractWithGemini_quota:
  assumes "generateContent e calls prompt = Inl (Thrown er)"
    and "str_includes (message er) (js ''429 Too Many Requests'')"
  shows "extractWithGemini e calls prompt = (Inl (Thrown quotaError), Suc calls)"
proof -
  have "message er \<noteq> []" using assms(2) by (auto simp: js_def)
  then show ?thesis using assms by (simp add: extractWithGemini_def)
qed

lemma is_QuotaExceededError_quotaError: "is_QuotaExceededError (Thrown quotaError)"
  by (simp add: is_QuotaExceededError_def quotaError_def)

lemma extractDataFromPDF_quota_fallback:
  assumes "cache svc (createTextHash t) = None"
    and "GEMINI_API_KEY e = Some k" and "k \<noteq> []"
    and "generateContent e calls (createExtractionPrompt e t) = Inl (Thrown er)"
    and "str_includes (message er) (js ''429 Too Many Requests'')"
  shows "extractDataFromPDF e svc calls t =
           (Inr (getFallbackData (today e)),
            svc\<lparr>cache := (cache svc)(createTextHash t \<mapsto> getFallbackData (today e))\<rparr>,
            Suc calls)"
  using assms(1-3) extractWithGemini_quota [OF assms(4,5)] is_QuotaExceededError_quotaError
  by (simp add: extractDataFromPDF_def extract_attempt_def Let_def)

lemma post_extract_quota_is_success:
  assumes "ExtractRequestSchema req_body = Inr req" and "pdf_text req = Inr t"
    and "GEMINI_API_KEY e = Some k" and "k \<noteq> []"
    and "generateContent e calls (createExtractionPrompt e t) = Inl (Thrown er)"
    and "str_includes (message er) (js ''429 Too Many Requests'')"
  shows "post_extract e pdf_text calls req_body =
           (\<lparr>status = 200, body = ExtractSuccess (getFallbackData (today e))\<rparr>, Suc calls)"
proof -
  have "cache new_AIService (createTextHash t) = None" by (simp add: new_AIService_def)
  from extractDataFromPDF_quota_fallback [OF this assms(3-6)] assms(1,2)
  show ?thesis by (simp add: post_extract_def Let_def)
qed

lemma getQuotaInfo_quotaError: "\<not> isQuotaExceeded (getQuotaInfo quotaError)"
  by (simp add: getQuotaInfo_def quotaError_def js_def)

lemma extract_error_response_plain_status:
  "status (extract_error_response (Thrown (new_Error m))) \<in> {401, 500}"
  by (simp add: extract_error_response_def new_Error_def js_def)

lemma extractDataFromPDF_missing_key:
  assumes "cache svc (createTextHash t) = None"
    and "GEMINI_API_KEY e = None \<or> GEMINI_API_KEY e = Some []"
  shows "extractDataFromPDF e svc calls t =
           (Inl (Thrown (new_Error
              (js ''Failed to extract data with Gemini: GEMINI_API_KEY not configured''))),
            svc, calls)"
proof -
  have "\<not> is_QuotaExceededError (Thrown (new_Error (js ''GEMINI_API_KEY not configured'')))"
    by (simp add: is_QuotaExceededError_def new_Error_def js_def)
  then show ?thesis
    using assms
    by (auto simp: extractDataFromPDF_def extract_attempt_def Let_def thrown_message_def
        new_Error_def js_def)
qed

lemma missing_key_response:
  "extract_error_response (Thrown (new_Error
      (js ''Failed to extract data with Gemini: GEMINI_API_KEY not configured''))) =
   \<lparr>status = 500,
    body = ExtractionFailed (js ''Failed to extract data with Gemini: GEMINI_API_KEY not configured'')\<rparr>"
  by (simp add: extract_error_response_def new_Error_def js_def)

lemma post_extract_missing_key:
  assumes "ExtractRequestSchema req_body = Inr req" and "pdf_text req = Inr t"
    and "GEMINI_API_KEY e = None \<or> GEMINI_API_KEY e = Some []"
  shows "post_extract e pdf_text calls req_body =
           (\<lparr>status = 500,
             body = ExtractionFailed
               (js ''Failed to extract data with Gemini: GEMINI_API_KEY not configured'')\<rparr>,
            calls)"
proof -
  have "cache new_AIService (createTextHash t) = None" by (simp add: new_AIService_def)
  from extractDataFromPDF_missing_key [OF this assms(3)] assms(1,2) missing_key_response
  show ?thesis by (simp add: post_extract_def Let_def)
qed

lemma ExtractRequestSchema_example:
  "ExtractRequestSchema example_request =
     Inr \<lparr>req_fileId = js ''f1'', req_model = js ''gemini'',
          req_fileUrl = Some (js ''https://example.com/f1.pdf'')\<rparr>"
  by (simp add: ExtractRequestSchema_def example_request_def zod_object_def field_def
      zod_both_def zod_string_def zod_enum_def zod_optional_def js_def)

lemma table_env_key: "GEMINI_API_KEY (table_env table key up) = key"
  and table_env_upstream: "generateContent (table_env table key up) = up"
  by (simp_all add: table_env_def)

lemma key_nonempty: "js ''key'' \<noteq> []"
  by (simp add: js_def)

text \<open>
  Claim C1, evaluated where the code departs from it. The credential is configured, the
  request is valid, the text of the PDF is \<open>INVOICE 7\<close>, and the upstream call
  fails with a message containing \<open>429 Too Many Requests\<close>. \<open>extractDataFromPDF\<close>
  returns the fallback record (vendor name \<open>Vendor Name (Quota Exceeded)\<close>, invoice
  number \<open>INV-QUOTA-EXCEEDED\<close>, one line item), so the handler answers 200 with that
  record and not 429. The error that \<open>extractWithGemini\<close> throws for the quota has a
  message of its own, on which \<open>getQuotaInfo\<close> gives \<open>isQuotaExceeded = false\<close>.
\<close>

theorem quota_error_answered_200:
  "post_extract
     (table_env json_table (Some (js ''key''))
        (\<lambda>n prompt. Inl (Thrown (new_Error (js ''[429 Too Many Requests] Resource exhausted'')))))
     (\<lambda>req. Inr (js ''INVOICE 7'')) 0 example_request =
   (\<lparr>status = 200, body = ExtractSuccess (getFallbackData (js ''2025-01-15''))\<rparr>, 1) \<and>
   name (vendor (getFallbackData (js ''2025-01-15''))) = js ''Vendor Name (Quota Exceeded)'' \<and>
   number (invoice (getFallbackData (js ''2025-01-15''))) = js ''INV-QUOTA-EXCEEDED'' \<and>
   length (lineItems (invoice (getFallbackData (js ''2025-01-15'')))) = 1 \<and>
   \<not> isQuotaExceeded (getQuotaInfo quotaError)"
proof -
  let ?up = "\<lambda>(n::nat) (prompt::jsstring).
    (Inl (Thrown (new_Error (js ''[429 Too Many Requests] Resource exhausted''))) :: thrown + jsstring)"
  let ?e = "table_env json_table (Some (js ''key'')) ?up"
  have m: "str_includes (message (new_Error (js ''[429 Too Many Requests] Resource exhausted'')))
      (js ''429 Too Many Requests'')"
    by (simp add: new_Error_def js_def)
  have "post_extract ?e (\<lambda>req. Inr (js ''INVOICE 7'')) 0 example_request =
      (\<lparr>status = 200, body = ExtractSuccess (getFallbackData (today ?e))\<rparr>, Suc 0)"
    by (rule post_extract_quota_is_success [OF ExtractRequestSchema_example refl
          table_env_key key_nonempty _ m]) (simp add: table_env_upstream)
  then show ?thesis
    using getQuotaInfo_quotaError by (simp add: table_env_today getFallbackData_def)
qed

text \<open>
  Claim C5, evaluated where the code departs from it. With \<open>GEMINI_API_KEY\<close> unset, a
  valid request is answered 500 and not 401, without an upstream call: the message
  \<open>Failed to extract data with Gemini: GEMINI_API_KEY not configured\<close> does not
  contain \<open>API key\<close>, which is what the handler looks for.
\<close>

theorem missing_key_answered_500:
  "post_extract (table_env json_table None (\<lambda>n prompt. Inr fenced_empty_object))
     (\<lambda>req. Inr (js ''INVOICE 7'')) 0 example_request =
   (\<lparr>status = 500,
     body = ExtractionFailed
       (js ''Failed to extract data with Gemini: GEMINI_API_KEY not configured'')\<rparr>, 0) \<and>
   \<not> str_includes (js ''Failed to extract data with Gemini: GEMINI_API_KEY not configured'')
       (js ''API key'')"
proof -
  have "post_extract (table_env json_table None (\<lambda>n prompt. Inr fenced_empty_object))
     (\<lambda>req. Inr (js ''INVOICE 7'')) 0 example_request =
   (\<lparr>status = 500,
     body = ExtractionFailed
       (js ''Failed to extract data with Gemini: GEMINI_API_KEY not configured'')\<rparr>, 0)"
    by (rule post_extract_missing_key [OF ExtractRequestSchema_example refl])
       (simp add: table_env_key)
  then show ?thesis by (simp add: js_def)
qed


lemma post_extract_success:
  assumes "ExtractRequestSchema req_body = Inr req" and "pdf_text req = Inr t"
    and "GEMINI_API_KEY e = Some k" and "k \<noteq> []"
    and "generateContent e calls (createExtractionPrompt e t) = Inr reply"
    and "validate_response e reply = Inr d"
  shows "post_extract e pdf_text calls req_body =
           (\<lparr>status = 200, body = ExtractSuccess d\<rparr>, Suc calls)"
  using assms
  by (simp add: post_extract_def extractDataFromPDF_def new_AIService_def extract_attempt_def
      extractWithGemini_def Let_def)

lemma acme_not_default: "default_data day \<noteq> acme_data"
  by (simp add: default_data_def acme_data_def js_def)

text \<open>
  Claim C2, evaluated where the code departs from it. Two requests for the same PDF
  text, one after the other: the first is answered from the upstream reply
  \<open>```json\n{}\n```\<close>; the second constructs a new \<open>AIService\<close> with an empty cache,
  calls upstream again (the count goes from 1 to 2) and answers the record of the second
  reply, which differs from the first.
\<close>

theorem second_request_calls_upstream_again:
  "post_extract
     (table_env json_table (Some (js ''key''))
        (\<lambda>n prompt. if n = 0 then Inr fenced_empty_object else Inr null_currency_text))
     (\<lambda>req. Inr (js ''INVOICE 7'')) 0 example_request =
   (\<lparr>status = 200, body = ExtractSuccess (default_data (js ''2025-01-15''))\<rparr>, 1) \<and>
   post_extract
     (table_env json_table (Some (js ''key''))
        (\<lambda>n prompt. if n = 0 then Inr fenced_empty_object else Inr null_currency_text))
     (\<lambda>req. Inr (js ''INVOICE 7'')) 1 example_request =
   (\<lparr>status = 200, body = ExtractSuccess acme_data\<rparr>, 2) \<and>
   default_data (js ''2025-01-15'') \<noteq> acme_data"
proof -
  let ?up = "\<lambda>(n::nat) (prompt::jsstring).
    (if n = 0 then Inr fenced_empty_object else Inr null_currency_text :: thrown + jsstring)"
  let ?e = "table_env json_table (Some (js ''key'')) ?up"
  have first: "post_extract ?e (\<lambda>req. Inr (js ''INVOICE 7'')) 0 example_request =
      (\<lparr>status = 200, body = ExtractSuccess (default_data (js ''2025-01-15''))\<rparr>, Suc 0)"
    by (rule post_extract_success [OF ExtractRequestSchema_example refl table_env_key
          key_nonempty _ validate_fenced_empty_object]) (simp add: table_env_upstream)
  have second: "post_extract ?e (\<lambda>req. Inr (js ''INVOICE 7'')) (Suc 0) example_request =
      (\<lparr>status = 200, body = ExtractSuccess acme_data\<rparr>, Suc (Suc 0))"
    by (rule post_extract_success [OF ExtractRequestSchema_example refl table_env_key
          key_nonempty _ validate_null_currency_text]) (simp add: table_env_upstream)
  show ?thesis using first second acme_not_default by simp
qed

section \<open>Properties of the invoices route\<close>











lemma find_fileId_Some:
  assumes "query_failure db = None" and "\<exists>doc \<in> set store. doc_fileId doc = fid"
  shows "\<exists>existing. findOne_fileId db store fid = Inr (Some existing)"
proof -
  have "find (\<lambda>d. doc_fileId d = fid) store \<noteq> None"
    using assms(2) by (auto simp: find_None_iff)
  then show ?thesis using assms(1) by (auto simp: findOne_fileId_def)
qed

text \<open>
  Claim C7, as amended. A creation request that the schema accepts, whose \<open>fileId\<close> is
  that of a stored invoice and whose lookup the database answers, is answered 409, and
  the collection is the one before the request: no stored record is changed and none is
  added.
\<close>

theorem duplicate_fileId_rejected:
  assumes "CreateInvoiceSchema req_body = Inr invoiceData"
    and "query_failure db = None"
    and "\<exists>doc \<in> set store. doc_fileId doc = fileId invoiceData"
  shows "post_invoices db store req_body =
           (\<lparr>status = 409, body = InvoiceAlreadyExists\<rparr>, store)"
proof -
  obtain existing where "findOne_fileId db store (fileId invoiceData) = Inr (Some existing)"
    using find_fileId_Some [OF assms(2,3)] by blast
  then show ?thesis using assms(1) by (simp add: post_invoices_def)
qed

lemma CreateInvoiceSchema_example:
  "CreateInvoiceSchema example_create_body =
     Inr \<lparr>fileId = js ''f1'', fileName = js ''again.pdf'', fileUrl = None,
          new_vendor = \<lparr>name = js ''Other'', address = None, taxId = None\<rparr>,
          new_invoice = \<lparr>number = js ''8'', date = js ''2025-02-01'', currency = None,
            subtotal = None, taxPercent = None, invoice_total = None, poNumber = None,
            poDate = None, lineItems = []\<rparr>\<rparr>"
  by (simp add: CreateInvoiceSchema_def example_create_body_def zod_object_def field_def
      VendorSchema_def InvoiceSchema_def zod_both_def zod_string_def zod_optional_def
      zod_array_def js_def)

text \<open>A second creation for the file \<open>f1\<close>, with other data.\<close>

theorem duplicate_fileId_rejected_witness:
  "CreateInvoiceSchema example_create_body =
     Inr \<lparr>fileId = js ''f1'', fileName = js ''again.pdf'', fileUrl = None,
          new_vendor = \<lparr>name = js ''Other'', address = None, taxId = None\<rparr>,
          new_invoice = \<lparr>number = js ''8'', date = js ''2025-02-01'', currency = None,
            subtotal = None, taxPercent = None, invoice_total = None, poNumber = None,
            poDate = None, lineItems = []\<rparr>\<rparr> \<and>
   query_failure idle_database = None \<and>
   (\<exists>doc \<in> set [example_doc]. doc_fileId doc = js ''f1'') \<and>
   post_invoices idle_database [example_doc] example_create_body =
     (\<lparr>status = 409, body = InvoiceAlreadyExists\<rparr>, [example_doc])"
proof -
  let ?d = "\<lparr>fileId = js ''f1'', fileName = js ''again.pdf'', fileUrl = None,
          new_vendor = \<lparr>name = js ''Other'', address = None, taxId = None\<rparr>,
          new_invoice = \<lparr>number = js ''8'', date = js ''2025-02-01'', currency = None,
            subtotal = None, taxPercent = None, invoice_total = None, poNumber = None,
            poDate = None, lineItems = []\<rparr>\<rparr>"
  have h1: "CreateInvoiceSchema example_create_body = Inr ?d"
    by (rule CreateInvoiceSchema_example)
  have h2: "query_failure idle_database = None" by (simp add: idle_database_def)
  have h3: "\<exists>doc \<in> set [example_doc]. doc_fileId doc = fileId ?d"
    by (simp add: example_doc_def)
  show ?thesis
    using duplicate_fileId_rejected [OF h1 h2 h3] h1 h2 h3 by simp
qed

text \<open>
  Claim C7 as stated fails. The file \<open>f1\<close> is stored. The body \<open>{"fileId":"f1"}\<close>
  has that \<open>fileId\<close>, is rejected by the schema before the lookup and is answered 400.
  A body that the schema accepts, with that \<open>fileId\<close>, is answered 500 when the
  database rejects the lookup. In both cases the collection is unchanged.
\<close>

theorem stored_fileId_not_409_counterexample:
  "doc_fileId example_doc = js ''f1'' \<and>
   get_prop fileId_only_body (js ''fileId'') = Some (JString (js ''f1'')) \<and>
   post_invoices idle_database [example_doc] fileId_only_body =
     (\<lparr>status = 400,
       body = InvalidInvoiceData
         [InvalidType (js ''string'') ZUndefined [Key (js ''fileName'')],
          InvalidType (js ''object'') ZUndefined [Key (js ''vendor'')],
          InvalidType (js ''object'') ZUndefined [Key (js ''invoice'')]]\<rparr>,
      [example_doc]) \<and>
   get_prop example_create_body (js ''fileId'') = Some (JString (js ''f1'')) \<and>
   post_invoices
     (idle_database\<lparr>query_failure := Some (Thrown (new_Error (js ''connection closed'')))\<rparr>)
     [example_doc] example_create_body =
     (\<lparr>status = 500,
       body = InvoicesFailed (js ''Failed to create invoice'') (js ''connection closed'')\<rparr>,
      [example_doc])"
proof -
  have a: "CreateInvoiceSchema fileId_only_body =
      Inl [InvalidType (js ''string'') ZUndefined [Key (js ''fileName'')],
           InvalidType (js ''object'') ZUndefined [Key (js ''vendor'')],
           InvalidType (js ''object'') ZUndefined [Key (js ''invoice'')]]"
    by (simp add: CreateInvoiceSchema_def fileId_only_body_def zod_object_def field_def
        VendorSchema_def InvoiceSchema_def zod_both_def zod_string_def zod_optional_def js_def)
  have b: "post_invoices
     (idle_database\<lparr>query_failure := Some (Thrown (new_Error (js ''connection closed'')))\<rparr>)
     [example_doc] example_create_body =
     (\<lparr>status = 500,
       body = InvoicesFailed (js ''Failed to create invoice'') (js ''connection closed'')\<rparr>,
      [example_doc])"
    by (simp add: post_invoices_def CreateInvoiceSchema_example findOne_fileId_def
        create_error_response_def new_Error_def)
  have c: "get_prop fileId_only_body (js ''fileId'') = Some (JString (js ''f1''))"
    "get_prop example_create_body (js ''fileId'') = Some (JString (js ''f1''))"
    by (simp_all add: fileId_only_body_def example_create_body_def js_def)
  show ?thesis
    using a b c by (simp add: post_invoices_def example_doc_def)
qed

text \<open>Whatever the request, a creation leaves the stored records in place.\<close>

lemma post_invoices_keeps_store: "prefix store (snd (post_invoices db store req_body))"
  by (auto simp: post_invoices_def split: sum.splits option.splits)




text \<open>
  Beyond \<open>2 ^ 53\<close> the number that \<open>parseInt\<close> returns is the rounded one.
\<close>

lemma parseInt_rounded:
  "parseInt rnd (js ''9007199254740993'') = Finite (rnd 9007199254740993)"
  by (simp add: parseInt_def parse_integer_def parse_digits_def digit_of_def js_def
      is_whitespace_def binary64_of_def)







section \<open>Properties of QuotaHelper\<close>

lemma str_includes_sublist: "str_includes s pat \<longleftrightarrow> sublist pat s"
  by (induction s) (auto simp: sublist_Cons_right)

text \<open>
  Claim C6, as amended. \<open>shouldUseFallback\<close> is true exactly when the message contains
  \<open>429 Too Many Requests\<close>, \<open>quota\<close> or \<open>limit\<close> as a contiguous substring. The
  first needle is the whole phrase, not the bare \<open>429\<close>.
\<close>

theorem shouldUseFallback_iff:
  "shouldUseFallback e \<longleftrightarrow>
     sublist (js ''429 Too Many Requests'') (message e) \<or>
     sublist (js ''quota'') (message e) \<or>
     sublist (js ''limit'') (message e)"
  by (simp add: shouldUseFallback_def str_includes_sublist)

text \<open>
  Claim C6 as stated fails: the message \<open>HTTP 429\<close> contains \<open>429\<close>, and
  \<open>shouldUseFallback\<close> is false on it.
\<close>

theorem shouldUseFallback_bare_429_counterexample:
  "sublist (js ''429'') (message (new_Error (js ''HTTP 429''))) \<and>
   \<not> shouldUseFallback (new_Error (js ''HTTP 429''))"
  by (simp add: shouldUseFallback_def new_Error_def js_def
      str_includes_sublist [symmetric])

lemma is_binary64_zero: "is_binary64 0"
  unfolding is_binary64_def
  by (rule exI [of _ 0], rule exI [of _ 0], rule exI [of _ 0]) simp

lemma is_binary64_below_50: "is_binary64 (50 - 1 / 2 ^ 47)"
  unfolding is_binary64_def
  by (rule exI [of _ "50 * 2 ^ 47 - 1"], rule exI [of _ 0], rule exI [of _ 47])
     (simp add: field_simps)

lemma binary64_below_one:
  assumes "is_binary64 r" and "r < 1"
  shows "r \<le> 1 - 1 / 2 ^ 53"
proof -
  obtain m :: int and a b :: nat
    where m: "\<bar>m\<bar> < 2 ^ 53" and r: "r = of_int m * 2 ^ a / 2 ^ b"
    using assms(1) unfolding is_binary64_def by blast
  show ?thesis
  proof (cases "m \<le> 0")
    case True
    then have "r \<le> 0" by (simp add: r mult_le_0_iff divide_le_0_iff)
    then show ?thesis by simp
  next
    case False
    then have mpos: "1 \<le> m" by simp
    have ab: "a < b"
    proof (rule ccontr)
      assume "\<not> a < b"
      then have "(2 ^ b :: real) \<le> 2 ^ a" by (intro power_increasing) simp_all
      moreover have "(2 ^ a :: real) \<le> of_int m * 2 ^ a" using mpos by simp
      ultimately have "(2 ^ b :: real) \<le> of_int m * 2 ^ a" by (rule order_trans)
      then have "1 \<le> r" by (simp add: r le_divide_eq)
      with assms(2) show False by simp
    qed
    define k where "k = b - a"
    have b: "b = a + k" and kpos: "0 < k" using ab by (simp_all add: k_def)
    have rk: "r = of_int m / 2 ^ k" by (simp add: r b power_add)
    have lt: "m < 2 ^ k"
    proof -
      have "of_int m < (2 ^ k :: real)"
        using assms(2) by (simp add: rk divide_less_eq)
      then have "(of_int m :: real) < of_int (2 ^ k)" by simp
      then show ?thesis by (simp only: of_int_less_iff)
    qed
    show ?thesis
    proof (cases "k \<le> 53")
      case True
      from lt have "m \<le> 2 ^ k - 1" by simp
      then have "(of_int m :: real) \<le> of_int (2 ^ k - 1)"
        by (simp only: of_int_le_iff)
      then have "of_int m \<le> (2 ^ k - 1 :: real)" by simp
      then have "r \<le> (2 ^ k - 1) / 2 ^ k"
        by (simp add: rk divide_right_mono)
      also have "\<dots> = 1 - 1 / (2 ^ k :: real)" by (simp add: field_simps)
      also have "\<dots> \<le> 1 - 1 / 2 ^ 53"
      proof -
        have "(2 ^ k :: real) \<le> 2 ^ 53" using True by (intro power_increasing) simp_all
        then have "1 / (2 ^ 53 :: real) \<le> 1 / 2 ^ k"
          by (intro divide_left_mono) simp_all
        then show ?thesis by simp
      qed
      finally show ?thesis .
    next
      case False
      then have "(2 ^ 54 :: real) \<le> 2 ^ k" by (intro power_increasing) simp_all
      moreover have "(of_int m :: real) < 2 ^ 53"
      proof -
        from m have "m < 2 ^ 53" by simp
        then have "(of_int m :: real) < of_int (2 ^ 53)" by (simp only: of_int_less_iff)
        then show ?thesis by simp
      qed
      ultimately have "of_int m * 2 \<le> (2 ^ k :: real)" by simp
      then have "r \<le> 1 / 2" by (simp add: rk divide_le_eq)
      then show ?thesis by simp
    qed
  qed
qed

text \<open>
  A binary64 value below 1 is at most \<open>1 - 2\<^sup>-\<^sup>5\<^sup>3\<close>, so the exact product with 50
  is at most \<open>50 - 50 / 2 ^ 53\<close>, nearer to the binary64 value \<open>50 - 1 / 2 ^ 47\<close>
  than to 50: the rounded product stays below 50.
\<close>

lemma rounded_product_bounds:
  assumes rn: "round_to_nearest rnd" and b: "is_binary64 r" and r0: "0 \<le> r" and r1: "r < 1"
  shows "0 \<le> rnd (r * 50)" and "rnd (r * 50) < 50"
proof -
  let ?x = "r * 50"
  have x0: "0 \<le> ?x" using r0 by simp
  have "(2::real) ^ 6 \<le> 2 ^ 1023" by (intro power_increasing) simp_all
  then have range: "\<bar>?x\<bar> \<le> 2 ^ 1023" using r0 r1 by simp
  have "\<bar>rnd ?x - ?x\<bar> \<le> \<bar>0 - ?x\<bar>"
    using rn is_binary64_zero range unfolding round_to_nearest_def by blast
  with x0 show "0 \<le> rnd ?x" by simp
  have rle: "r \<le> 1 - 1 / 2 ^ 53" using binary64_below_one [OF b r1] .
  then have xle: "?x \<le> 50 - 50 / 2 ^ 53" by simp
  have near: "\<bar>rnd ?x - ?x\<bar> \<le> \<bar>(50 - 1 / 2 ^ 47) - ?x\<bar>"
    using rn is_binary64_below_50 range unfolding round_to_nearest_def by blast
  show "rnd ?x < 50"
    using near xle by (simp add: abs_le_iff abs_if split: if_splits)
qed

text \<open>
  Claim C10. For every binary64 value \<open>random\<close> in \<open>[0, 1)\<close> that \<open>Math.random()\<close>
  can return, and with the product rounded to nearest, the estimate has
  \<open>limit = 50\<close>, \<open>0 \<le> used \<le> 49\<close>, \<open>remaining = limit - used\<close>, and so
  \<open>used + remaining = 50\<close>.
\<close>

theorem getQuotaUsageEstimate_bounds:
  assumes "round_to_nearest rnd" and "is_binary64 random" and "0 \<le> random" and "random < 1"
  shows "limit (getQuotaUsageEstimate rnd random) = 50 \<and>
         0 \<le> used (getQuotaUsageEstimate rnd random) \<and>
         used (getQuotaUsageEstimate rnd random) \<le> 49 \<and>
         remaining (getQuotaUsageEstimate rnd random) =
           limit (getQuotaUsageEstimate rnd random) - used (getQuotaUsageEstimate rnd random) \<and>
         used (getQuotaUsageEstimate rnd random) + remaining (getQuotaUsageEstimate rnd random) = 50"
proof -
  have "0 \<le> rnd (random * 50)" "rnd (random * 50) < 50"
    using rounded_product_bounds [OF assms] by simp_all
  then have "0 \<le> \<lfloor>rnd (random * 50)\<rfloor>" "\<lfloor>rnd (random * 50)\<rfloor> \<le> 49"
    by (simp_all add: floor_less_iff le_floor_iff flip: less_le_not_le)
  then show ?thesis by (simp add: getQuotaUsageEstimate_def Let_def)
qed

text \<open>The estimate at \<open>random = 1/2\<close>, with exact arithmetic as the rounding.\<close>

theorem getQuotaUsageEstimate_bounds_witness:
  "round_to_nearest (\<lambda>x. x) \<and> is_binary64 (1 / 2) \<and> (0::real) \<le> 1 / 2 \<and> (1 / 2 :: real) < 1 \<and>
   used (getQuotaUsageEstimate (\<lambda>x. x) (1 / 2)) = 25 \<and>
   limit (getQuotaUsageEstimate (\<lambda>x. x) (1 / 2)) = 50 \<and>
   remaining (getQuotaUsageEstimate (\<lambda>x. x) (1 / 2)) = 25"
proof -
  have rn: "round_to_nearest (\<lambda>x. x)" by (simp add: round_to_nearest_def)
  have b: "is_binary64 (1 / 2)"
    unfolding is_binary64_def
    by (rule exI [of _ 1], rule exI [of _ 0], rule exI [of _ 1]) simp
  have u: "used (getQuotaUsageEstimate (\<lambda>x. x) (1 / 2)) = 25"
    by (simp add: getQuotaUsageEstimate_def Let_def)
  show ?thesis
    using getQuotaUsageEstimate_bounds [OF rn b] rn b u by simp
qed

end
